theory Spec2Isabelle
  imports Main
begin

section \<open>Bird detector v5.5: the presence tracker and visit counter\<close>

text \<open>
  A shallow embedding of class \<open>BirdTracker\<close> of \<open>bird_detector_v5_5.py\<close> and of the part
  of \<open>BirdCallback.process_callback\<close> that drives it.

  Timestamps, \<open>bird_timeout\<close> and \<open>min_time_between_visits\<close> are Python numbers (the
  configuration holds integers, the driver passes \<open>time.time()\<close>). They are values of one
  ordered ring \<open>'t\<close> here (the integers and the reals are instances), so subtraction and
  comparison are exact; the rounding of floating-point subtraction is not modelled.
  Counters and per-frame counts are Python integers, hence \<open>int\<close>.

  The \<open>console_mode\<close> argument of the tracker's methods selects which messages are
  printed. The text written to the console is not modelled, but three of the messages
  format the current time with \<open>datetime.fromtimestamp\<close>, which raises for a timestamp
  it cannot represent; that exception is modelled, and so is the state a method leaves
  behind when it is raised half way.
\<close>

subsection \<open>Configuration\<close>

text \<open>
  The \<open>bird_tracking\<close> section of the configuration. Two keys are read with
  \<open>dict.get\<close> and a default, so they may be absent.
\<close>

record 't bird_tracking_config =
  cfg_enable_tracking :: bool
  cfg_enable_visit_counter :: "bool option"
  cfg_bird_timeout_seconds :: 't
  cfg_min_time_between_visits_seconds :: "'t option"

text \<open>\<open>ConfigManager.get_default_config\<close>, the \<open>bird_tracking\<close> section.\<close>

definition get_default_config :: "('t::linordered_idom) bird_tracking_config" where
  "get_default_config =
     \<lparr> cfg_enable_tracking = True,
       cfg_enable_visit_counter = Some True,
       cfg_bird_timeout_seconds = 30,
       cfg_min_time_between_visits_seconds = Some 10 \<rparr>"

subsection \<open>The tracker's state\<close>

text \<open>
  A slot of \<open>active_birds\<close> is keyed by the string \<open>bird_<n>\<close>, where \<open>n\<close> is the value
  of \<open>total_unique_birds\<close> at creation; the key is represented by \<open>n\<close> itself. The
  dictionary is an association list in insertion order, because the code takes the first
  key (\<open>list(self.active_birds.keys())[0]\<close>).
\<close>

type_synonym bird_id = int

type_synonym 't active_birds_dict = "(bird_id \<times> 't) list"

text \<open>
  The attribute \<open>current_birds_on_frame\<close> is not assigned by \<open>__init__\<close>; only
  \<open>update_birds\<close> sets it. \<open>None\<close> stands for the attribute that does not exist yet.
\<close>

record 't BirdTracker =
  enable_tracking :: bool
  enable_visit_counter :: bool
  bird_timeout :: 't
  min_time_between_visits :: 't
  active_birds :: "'t active_birds_dict"
  total_unique_birds :: int
  total_feeding_visits :: int
  last_birds_on_frame :: int
  last_bird_absence_time :: 't
  prev_total_unique :: int
  prev_total_feeding_visits :: int
  new_visit_happened :: bool
  current_birds_on_frame :: "int option"

text \<open>
  \<open>FromTimestampError\<close> stands for the exception of \<open>datetime.fromtimestamp\<close>, which
  is a \<open>ValueError\<close>, an \<open>OverflowError\<close> or an \<open>OSError\<close> depending on the value and
  the platform.
\<close>

datatype py_error = AttributeError | FromTimestampError

text \<open>\<open>BirdTracker.__init__\<close>.\<close>

definition BirdTracker_init :: "('t::linordered_idom) bird_tracking_config \<Rightarrow> 't BirdTracker" where
  "BirdTracker_init config =
     \<lparr> enable_tracking = cfg_enable_tracking config,
       enable_visit_counter =
         (case cfg_enable_visit_counter config of None \<Rightarrow> True | Some b \<Rightarrow> b),
       bird_timeout = cfg_bird_timeout_seconds config,
       min_time_between_visits =
         (case cfg_min_time_between_visits_seconds config of None \<Rightarrow> 10 | Some m \<Rightarrow> m),
       active_birds = [],
       total_unique_birds = 0,
       total_feeding_visits = 0,
       last_birds_on_frame = 0,
       last_bird_absence_time = 0,
       prev_total_unique = 0,
       prev_total_feeding_visits = 0,
       new_visit_happened = False,
       current_birds_on_frame = None \<rparr>"

subsection \<open>Dictionary operations on the slot table\<close>

text \<open>\<open>d[k] = v\<close>: an existing key keeps its position, a new key goes to the end.\<close>

fun dict_set :: "'k \<Rightarrow> 'v \<Rightarrow> ('k \<times> 'v) list \<Rightarrow> ('k \<times> 'v) list" where
  "dict_set k v [] = [(k, v)]"
| "dict_set k v ((k', v') # rest) =
     (if k' = k then (k, v) # rest else (k', v') # dict_set k v rest)"

text \<open>\<open>del d[k]\<close> for a key taken from the dictionary itself.\<close>

definition dict_del :: "'k \<Rightarrow> ('k \<times> 'v) list \<Rightarrow> ('k \<times> 'v) list" where
  "dict_del k d = filter (\<lambda>p. fst p \<noteq> k) d"

subsection \<open>Formatting a timestamp\<close>

text \<open>
  Which timestamps \<open>datetime.fromtimestamp\<close> accepts depends on the platform's
  \<open>localtime\<close>, the time zone and the interpreter, none of which the source fixes. The
  model takes the timestamps from 0 to \<open>2^31 - 1\<close> seconds (the years 1970 to 2038, the
  range the Python documentation names as the common one) to be accepted on every
  platform; for all others the answer is the parameter \<open>platform\<close>.
\<close>

definition fromtimestamp_ok :: "('t \<Rightarrow> bool) \<Rightarrow> ('t::linordered_idom) \<Rightarrow> bool" where
  "fromtimestamp_ok platform timestamp \<longleftrightarrow>
     (0 \<le> timestamp \<and> timestamp \<le> 2147483647) \<or> platform timestamp"

text \<open>
  A message that contains
  \<open>datetime.fromtimestamp(current_time).strftime('%H:%M:%S')\<close>: it is printed, or
  building it raises.
\<close>

definition print_time :: "('t \<Rightarrow> bool) \<Rightarrow> ('t::linordered_idom) \<Rightarrow> py_error option" where
  "print_time platform current_time =
     (if fromtimestamp_ok platform current_time then None else Some FromTimestampError)"

text \<open>
  An instance of the parameter for examples: CPython 3.11 on Linux with the local time
  zone UTC accepts the timestamps of the years 1 to 9999, except those of the first day.
\<close>

definition linux_utc_platform :: "('t::linordered_idom) \<Rightarrow> bool" where
  "linux_utc_platform timestamp \<longleftrightarrow>
     - 62135510400 \<le> timestamp \<and> timestamp < 253402300800"

subsection \<open>Counting feeding visits\<close>

text \<open>The three places that count a visit share this update.\<close>

definition count_visit :: "'t BirdTracker \<Rightarrow> 't BirdTracker" where
  "count_visit self =
     self\<lparr> total_feeding_visits := total_feeding_visits self + 1,
           new_visit_happened := True \<rparr>"

text \<open>
  \<open>BirdTracker.update_feeding_visits\<close>: the tracker after the call and the exception
  the call raised, if any. The branches give the tracker as the assignments leave it and
  what the messages of the branch do; when a message raises, the method is left before
  its last line, so \<open>last_birds_on_frame\<close> keeps its old value.
\<close>

definition update_feeding_visits ::
  "('t \<Rightarrow> bool) \<Rightarrow> ('t::linordered_idom) BirdTracker \<Rightarrow> int \<Rightarrow> 't \<Rightarrow> string \<Rightarrow>
     't BirdTracker \<times> py_error option" where
  "update_feeding_visits platform self0 birds_on_frame current_time console_mode =
     (if \<not> enable_visit_counter self0 then (self0, None)
      else
        let self = self0\<lparr> new_visit_happened := False \<rparr>;
            (self, raised) =
              (if birds_on_frame > 0 then
                 (if last_birds_on_frame self = 0 then
                    (if last_bird_absence_time self = 0 then
                       (count_visit self,
                        if console_mode \<in> set [''all'', ''changes_only'']
                        then print_time platform current_time else None)
                     else
                       let time_since_absence = current_time - last_bird_absence_time self
                       in if time_since_absence \<ge> min_time_between_visits self
                          then (count_visit self,
                                if console_mode \<in> set [''all'', ''changes_only'']
                                then print_time platform current_time else None)
                          else (self, None))
                  else if birds_on_frame > last_birds_on_frame self \<and> birds_on_frame > 1
                  then (count_visit self, None)
                  else (self, None))
               else if birds_on_frame = 0 \<and> last_birds_on_frame self > 0
               then (self\<lparr> last_bird_absence_time := current_time \<rparr>,
                     if console_mode = ''all'' then print_time platform current_time else None)
               else (self, None))
        in case raised of
             Some e \<Rightarrow> (self, Some e)
           | None \<Rightarrow> (self\<lparr> last_birds_on_frame := birds_on_frame \<rparr>, None))"

subsection \<open>Tracking slots\<close>

text \<open>
  The first loop of \<open>update_birds\<close> collects the keys of the slots whose age exceeds the
  timeout, the second deletes them.
\<close>

definition expired_birds :: "('t::linordered_idom) BirdTracker \<Rightarrow> 't \<Rightarrow> bird_id list" where
  "expired_birds self current_time =
     map fst (filter (\<lambda>(bird_id, last_seen). current_time - last_seen > bird_timeout self)
                     (active_birds self))"

definition delete_expired :: "('t::linordered_idom) BirdTracker \<Rightarrow> 't \<Rightarrow> 't BirdTracker" where
  "delete_expired self current_time =
     self\<lparr> active_birds := fold dict_del (expired_birds self current_time) (active_birds self) \<rparr>"

text \<open>
  One iteration of the loop over the detections; the second component is the local
  \<open>new_birds\<close>. The detection itself is not inspected by the code.
\<close>

definition detection_step ::
  "'t \<Rightarrow> 't BirdTracker \<times> int \<Rightarrow> 't BirdTracker \<times> int" where
  "detection_step current_time st =
     (case st of (self, new_birds) \<Rightarrow>
        (case active_birds self of
           [] \<Rightarrow>
             (let n = total_unique_birds self + 1
              in (self\<lparr> total_unique_birds := n,
                        active_birds := dict_set n current_time (active_birds self) \<rparr>,
                  new_birds + 1))
         | (existing_bird, last_seen) # rest \<Rightarrow>
             (self\<lparr> active_birds := dict_set existing_bird current_time (active_birds self) \<rparr>,
              new_birds)))"

primrec process_detections ::
  "'d list \<Rightarrow> 't \<Rightarrow> 't BirdTracker \<times> int \<Rightarrow> 't BirdTracker \<times> int" where
  "process_detections [] current_time st = st"
| "process_detections (detection # detections) current_time st =
     process_detections detections current_time (detection_step current_time st)"

text \<open>
  \<open>BirdTracker.update_birds\<close>: the tracker after the call, and the exception raised or
  the returned pair \<open>(birds_on_frame, new_birds)\<close>. An exception of
  \<open>update_feeding_visits\<close> leaves the method before the slots are touched and before
  \<open>current_birds_on_frame\<close> is set.
\<close>

definition update_birds ::
  "('t \<Rightarrow> bool) \<Rightarrow> ('t::linordered_idom) BirdTracker \<Rightarrow> 'd list \<Rightarrow> 't \<Rightarrow> string \<Rightarrow>
     't BirdTracker \<times> (py_error + int \<times> int)" where
  "update_birds platform self0 detections current_time console_mode =
     (let birds_on_frame = int (length detections)
      in case update_feeding_visits platform self0 birds_on_frame current_time console_mode of
           (self, Some e) \<Rightarrow> (self, Inl e)
         | (self, None) \<Rightarrow>
             if \<not> enable_tracking self
             then (self\<lparr> current_birds_on_frame := Some birds_on_frame \<rparr>,
                   Inr (birds_on_frame, 0))
             else
               (case process_detections detections current_time
                       (delete_expired self current_time, 0) of
                  (self, new_birds) \<Rightarrow>
                    (self\<lparr> current_birds_on_frame := Some birds_on_frame \<rparr>,
                     Inr (birds_on_frame, new_birds))))"

subsection \<open>Statistics and change detection\<close>

record 't stats =
  stat_total_unique :: int
  stat_total_feeding_visits :: int
  stat_current_active :: int
  stat_current_on_frame :: int
  stat_last_absence_time :: 't

text \<open>
  \<open>BirdTracker.get_stats\<close>. Reading \<open>self.current_birds_on_frame\<close> before any
  \<open>update_birds\<close> call raises \<open>AttributeError\<close>.
\<close>

definition get_stats :: "'t BirdTracker \<Rightarrow> py_error + 't stats" where
  "get_stats self =
     (case current_birds_on_frame self of
        None \<Rightarrow> Inl AttributeError
      | Some on_frame \<Rightarrow>
          Inr \<lparr> stat_total_unique = total_unique_birds self,
                stat_total_feeding_visits = total_feeding_visits self,
                stat_current_active = int (length (active_birds self)),
                stat_current_on_frame = on_frame,
                stat_last_absence_time = last_bird_absence_time self \<rparr>)"

text \<open>\<open>BirdTracker.has_changes\<close>: the returned flag and the state with the new snapshot.\<close>

definition has_changes :: "'t BirdTracker \<Rightarrow> py_error + (bool \<times> 't BirdTracker)" where
  "has_changes self =
     (case get_stats self of
        Inl e \<Rightarrow> Inl e
      | Inr current_stats \<Rightarrow>
          (let changed =
                 (stat_total_unique current_stats \<noteq> prev_total_unique self \<or>
                  stat_total_feeding_visits current_stats \<noteq> prev_total_feeding_visits self)
           in Inr (changed,
                   self\<lparr> prev_total_unique := stat_total_unique current_stats,
                         prev_total_feeding_visits := stat_total_feeding_visits current_stats \<rparr>)))"

subsection \<open>Running a sequence of frames\<close>

text \<open>
  Successive \<open>update_birds\<close> calls, one per frame
  \<open>(detections, current_time, console_mode)\<close>. A call that raises leaves the tracker as
  it was at that point, and the next call works on that tracker, as it does in the
  callback, whose handler catches the exception.
\<close>

primrec run_frames ::
  "('t \<Rightarrow> bool) \<Rightarrow> ('t::linordered_idom) BirdTracker \<Rightarrow> ('d list \<times> 't \<times> string) list \<Rightarrow>
     't BirdTracker" where
  "run_frames platform self [] = self"
| "run_frames platform self (frame # frames) =
     run_frames platform
       (fst (update_birds platform self (fst frame) (fst (snd frame)) (snd (snd frame))))
       frames"

text \<open>A frame with \<open>n\<close> detections; what a detection holds does not matter to the tracker.\<close>

definition frame :: "nat \<Rightarrow> 't \<Rightarrow> string \<Rightarrow> unit list \<times> 't \<times> string" where
  "frame n current_time console_mode = (replicate n (), current_time, console_mode)"

subsection \<open>The frame callback\<close>

text \<open>
  The two event kinds that \<open>process_callback\<close> passes to
  \<open>LogManager.log_counter_event\<close>: the strings for a feeding visit and for a new unique
  bird. An event is the argument triple of one call: kind, counter value, timestamp.
\<close>

datatype event_type = FeedingVisit | NewUniqueBird

type_synonym 't counter_event = "event_type \<times> int \<times> 't"

text \<open>
  The block of \<open>process_callback\<close> that logs counter changes: the events are the calls of
  \<open>log_counter_event\<close>, in order. The comparisons read \<open>prev_total_feeding_visits\<close> and
  \<open>prev_total_unique\<close> of the tracker after \<open>has_changes\<close> has run. An exception is
  caught by the callback's own handler, which ends the work on the frame.
\<close>

definition log_counter_events ::
  "'t BirdTracker \<Rightarrow> 't \<Rightarrow> 't BirdTracker \<times> 't counter_event list" where
  "log_counter_events tracker current_time =
     (case has_changes tracker of
        Inl e \<Rightarrow> (tracker, [])
      | Inr (changed, tracker) \<Rightarrow>
          if changed then
            (case get_stats tracker of
               Inl e \<Rightarrow> (tracker, [])
             | Inr stats \<Rightarrow>
                 (tracker,
                  (if stat_total_feeding_visits stats > prev_total_feeding_visits tracker
                   then [(FeedingVisit, stat_total_feeding_visits stats, current_time)]
                   else []) @
                  (if stat_total_unique stats > prev_total_unique tracker
                   then [(NewUniqueBird, stat_total_unique stats, current_time)]
                   else [])))
          else (tracker, []))"

text \<open>
  \<open>BirdCallback.process_callback\<close> for a frame that reached the tracker, from the
  \<open>update_birds\<close> call to the event logging; \<open>console_mode\<close> is what the callback reads
  from the configuration. When \<open>update_birds\<close> raises, the handler of the callback takes
  over and nothing is logged. Writing the detection row, the streams and the photo are
  file and network output and are not modelled.
\<close>

definition process_callback ::
  "('t \<Rightarrow> bool) \<Rightarrow> ('t::linordered_idom) BirdTracker \<Rightarrow> 'd list \<Rightarrow> 't \<Rightarrow> string \<Rightarrow>
     't BirdTracker \<times> 't counter_event list" where
  "process_callback platform tracker bird_detections current_time console_mode =
     (case update_birds platform tracker bird_detections current_time console_mode of
        (tracker, Inl e) \<Rightarrow> (tracker, [])
      | (tracker, Inr (birds_on_frame, new_birds)) \<Rightarrow>
          log_counter_events tracker current_time)"

subsection \<open>Notions used to state the properties\<close>

text \<open>
  The visit-start transitions as the specification words them: A, the first appearance
  in the session; B, a re-appearance after an absence of at least
  \<open>min_time_between_visits\<close>; D, group growth.
\<close>

definition visit_start_transition ::
  "('t::linordered_idom) BirdTracker \<Rightarrow> int \<Rightarrow> 't \<Rightarrow> bool" where
  "visit_start_transition self frame_count now \<longleftrightarrow>
     (frame_count > 0 \<and> last_birds_on_frame self = 0 \<and> last_bird_absence_time self = 0) \<or>
     (frame_count > 0 \<and> last_birds_on_frame self = 0 \<and> last_bird_absence_time self \<noteq> 0 \<and>
      now - last_bird_absence_time self \<ge> min_time_between_visits self) \<or>
     (frame_count > last_birds_on_frame self \<and> frame_count > 1 \<and> last_birds_on_frame self > 0)"

text \<open>
  Two states that agree on everything except the slot table, the unique-bird counter and
  \<open>current_birds_on_frame\<close>: what the tracking half of \<open>update_birds\<close> leaves alone.
\<close>

definition same_visit_state :: "'t BirdTracker \<Rightarrow> 't BirdTracker \<Rightarrow> bool" where
  "same_visit_state a b \<longleftrightarrow>
     enable_tracking a = enable_tracking b \<and>
     enable_visit_counter a = enable_visit_counter b \<and>
     bird_timeout a = bird_timeout b \<and>
     min_time_between_visits a = min_time_between_visits b \<and>
     total_feeding_visits a = total_feeding_visits b \<and>
     last_birds_on_frame a = last_birds_on_frame b \<and>
     last_bird_absence_time a = last_bird_absence_time b \<and>
     prev_total_unique a = prev_total_unique b \<and>
     prev_total_feeding_visits a = prev_total_feeding_visits b \<and>
     new_visit_happened a = new_visit_happened b"

text \<open>
  Whether building the messages of \<open>update_feeding_visits\<close> raises: a message with the
  time is due (a counted first or new visit in the modes \<open>all\<close> and \<open>changes_only\<close>, a
  disappearance in the mode \<open>all\<close>) and the time cannot be formatted.
\<close>

definition time_message_due ::
  "('t::linordered_idom) BirdTracker \<Rightarrow> int \<Rightarrow> 't \<Rightarrow> string \<Rightarrow> bool" where
  "time_message_due self birds_on_frame current_time console_mode \<longleftrightarrow>
     (birds_on_frame > 0 \<and> last_birds_on_frame self = 0 \<and>
      (last_bird_absence_time self = 0 \<or>
       current_time - last_bird_absence_time self \<ge> min_time_between_visits self) \<and>
      console_mode \<in> set [''all'', ''changes_only'']) \<or>
     (birds_on_frame = 0 \<and> last_birds_on_frame self > 0 \<and> console_mode = ''all'')"

text \<open>
  Frames without detections, one for each of the given calls \<open>(current_time,
  console_mode)\<close>.
\<close>

definition empty_frames :: "('t \<times> string) list \<Rightarrow> (unit list \<times> 't \<times> string) list" where
  "empty_frames calls = map (\<lambda>call. frame 0 (fst call) (snd call)) calls"

section \<open>Properties\<close>

lemmas run_defs =
  BirdTracker_init_def get_default_config_def frame_def empty_frames_def update_birds_def
  update_feeding_visits_def count_visit_def delete_expired_def expired_birds_def
  detection_step_def dict_del_def get_stats_def print_time_def fromtimestamp_ok_def Let_def


subsection \<open>The initial state\<close>

lemma BirdTracker_init_fields:
  "enable_tracking (BirdTracker_init config) = cfg_enable_tracking config"
  "enable_visit_counter (BirdTracker_init config) = (cfg_enable_visit_counter config \<noteq> Some False)"
  "bird_timeout (BirdTracker_init config) = cfg_bird_timeout_seconds config"
  "min_time_between_visits (BirdTracker_init config) =
     (case cfg_min_time_between_visits_seconds config of None \<Rightarrow> 10 | Some m \<Rightarrow> m)"
  "active_birds (BirdTracker_init config) = []"
  "total_unique_birds (BirdTracker_init config) = 0"
  "total_feeding_visits (BirdTracker_init config) = 0"
  "last_birds_on_frame (BirdTracker_init config) = 0"
  "last_bird_absence_time (BirdTracker_init config) = 0"
  "prev_total_unique (BirdTracker_init config) = 0"
  "prev_total_feeding_visits (BirdTracker_init config) = 0"
  "new_visit_happened (BirdTracker_init config) = False"
  "current_birds_on_frame (BirdTracker_init config) = None"
  by (simp_all add: BirdTracker_init_def split: option.splits)


subsection \<open>What one call of the visit counter changes\<close>

lemma update_feeding_visits_disabled:
  "\<not> enable_visit_counter self \<Longrightarrow> update_feeding_visits platform self n t mode = (self, None)"
  by (simp add: update_feeding_visits_def)

lemma update_feeding_visits_keeps:
  "enable_tracking (fst (update_feeding_visits platform self n t mode)) = enable_tracking self"
  "enable_visit_counter (fst (update_feeding_visits platform self n t mode)) = enable_visit_counter self"
  "bird_timeout (fst (update_feeding_visits platform self n t mode)) = bird_timeout self"
  "min_time_between_visits (fst (update_feeding_visits platform self n t mode)) = min_time_between_visits self"
  "active_birds (fst (update_feeding_visits platform self n t mode)) = active_birds self"
  "total_unique_birds (fst (update_feeding_visits platform self n t mode)) = total_unique_birds self"
  "prev_total_unique (fst (update_feeding_visits platform self n t mode)) = prev_total_unique self"
  "prev_total_feeding_visits (fst (update_feeding_visits platform self n t mode)) = prev_total_feeding_visits self"
  "current_birds_on_frame (fst (update_feeding_visits platform self n t mode)) = current_birds_on_frame self"
  by (simp_all add: update_feeding_visits_def count_visit_def Let_def split: option.splits)


text \<open>The three fields the visit counter writes, as functions of the state before.\<close>

lemma update_feeding_visits_fields:
  assumes "enable_visit_counter self"
  shows "total_feeding_visits (fst (update_feeding_visits platform self n t mode)) =
           total_feeding_visits self +
             (if n > 0 \<and>
                 (if last_birds_on_frame self = 0
                  then last_bird_absence_time self = 0 \<or>
                       t - last_bird_absence_time self \<ge> min_time_between_visits self
                  else n > last_birds_on_frame self \<and> n > 1)
              then 1 else 0)"
    and "last_birds_on_frame (fst (update_feeding_visits platform self n t mode)) =
           (if time_message_due self n t mode \<and> \<not> fromtimestamp_ok platform t
            then last_birds_on_frame self else n)"
    and "last_bird_absence_time (fst (update_feeding_visits platform self n t mode)) =
           (if n = 0 \<and> last_birds_on_frame self > 0 then t else last_bird_absence_time self)"
  using assms
  by (simp_all add: update_feeding_visits_def count_visit_def Let_def print_time_def
        time_message_due_def split: option.splits)

subsection \<open>The tracking half leaves the visit state alone\<close>

lemma same_visit_state_refl: "same_visit_state a a"
  by (simp add: same_visit_state_def)

lemma detection_step_same:
  "same_visit_state (fst (detection_step t st)) (fst st)"
  by (cases st) (simp add: detection_step_def same_visit_state_def Let_def split: list.splits)

lemma process_detections_same:
  "same_visit_state (fst (process_detections ds t st)) (fst st)"
proof (induction ds arbitrary: st)
  case Nil
  show ?case by (simp add: same_visit_state_refl)
next
  case (Cons d ds)
  have "same_visit_state (fst (process_detections ds t (detection_step t st)))
          (fst (detection_step t st))" by (rule Cons.IH)
  with detection_step_same [of t st] show ?case
    by (simp add: same_visit_state_def)
qed

lemma delete_expired_same: "same_visit_state (delete_expired self t) self"
  by (simp add: delete_expired_def same_visit_state_def)

text \<open>The two ways through \<open>update_birds\<close>.\<close>

lemma update_birds_raised:
  assumes "update_feeding_visits platform self (int (length ds)) t mode = (u, Some e)"
  shows "update_birds platform self ds t mode = (u, Inl e)"
  using assms by (simp add: update_birds_def Let_def)

lemma update_birds_returned:
  assumes "update_feeding_visits platform self (int (length ds)) t mode = (u, None)"
  shows "update_birds platform self ds t mode =
           (if \<not> enable_tracking u
            then (u\<lparr> current_birds_on_frame := Some (int (length ds)) \<rparr>, Inr (int (length ds), 0))
            else ((fst (process_detections ds t (delete_expired u t, 0)))
                     \<lparr> current_birds_on_frame := Some (int (length ds)) \<rparr>,
                  Inr (int (length ds), snd (process_detections ds t (delete_expired u t, 0)))))"
  using assms by (simp add: update_birds_def Let_def split: prod.splits)

lemma update_birds_same:
  "same_visit_state (fst (update_birds platform self ds t mode))
     (fst (update_feeding_visits platform self (int (length ds)) t mode))"
proof -
  obtain u r where ur: "update_feeding_visits platform self (int (length ds)) t mode = (u, r)"
    by (cases "update_feeding_visits platform self (int (length ds)) t mode")
  show ?thesis
  proof (cases r)
    case (Some e)
    with ur show ?thesis by (simp add: update_birds_raised same_visit_state_refl)
  next
    case None
    from process_detections_same [of ds t "(delete_expired u t, 0)"] delete_expired_same [of u t]
    have "same_visit_state (fst (process_detections ds t (delete_expired u t, 0))) u"
      by (simp add: same_visit_state_def)
    with None ur show ?thesis
      by (simp add: update_birds_returned same_visit_state_def)
  qed
qed

lemma update_birds_visits:
  "total_feeding_visits (fst (update_birds platform self ds t mode)) =
     total_feeding_visits (fst (update_feeding_visits platform self (int (length ds)) t mode))"
  "last_birds_on_frame (fst (update_birds platform self ds t mode)) =
     last_birds_on_frame (fst (update_feeding_visits platform self (int (length ds)) t mode))"
  "last_bird_absence_time (fst (update_birds platform self ds t mode)) =
     last_bird_absence_time (fst (update_feeding_visits platform self (int (length ds)) t mode))"
  "enable_visit_counter (fst (update_birds platform self ds t mode)) = enable_visit_counter self"
  "enable_tracking (fst (update_birds platform self ds t mode)) = enable_tracking self"
  "bird_timeout (fst (update_birds platform self ds t mode)) = bird_timeout self"
  "min_time_between_visits (fst (update_birds platform self ds t mode)) = min_time_between_visits self"
  using update_birds_same [of platform self ds t mode]
  by (simp_all add: same_visit_state_def update_feeding_visits_keeps)



subsection \<open>The loop over the detections\<close>

text \<open>Once the first slot carries the current time, further detections change nothing.\<close>

lemma detection_step_refresh:
  "active_birds self = (k, t) # rest \<Longrightarrow> detection_step t (self, nb) = (self, nb)"
  by (simp add: detection_step_def)

lemma process_detections_refresh:
  "active_birds self = (k, t) # rest \<Longrightarrow> process_detections ds t (self, nb) = (self, nb)"
  by (induction ds) (simp_all add: detection_step_refresh)

lemma detection_step_head:
  "\<exists>k rest. active_birds (fst (detection_step t st)) = (k, t) # rest"
  by (cases st) (simp add: detection_step_def Let_def split: list.splits)

text \<open>So the whole loop does what its first iteration does.\<close>

lemma process_detections_Cons:
  "process_detections (d # ds) t st = detection_step t st"
proof -
  obtain s' nb' where st': "detection_step t st = (s', nb')"
    by (cases "detection_step t st")
  with detection_step_head [of t st] obtain k rest where "active_birds s' = (k, t) # rest"
    by auto
  then have "process_detections ds t (s', nb') = (s', nb')"
    by (rule process_detections_refresh)
  with st' show ?thesis by simp
qed

lemma detection_step_slots:
  "length (active_birds (fst (detection_step t (self, nb)))) = max 1 (length (active_birds self))"
  by (simp add: detection_step_def Let_def split: list.splits)

lemma detection_step_counts:
  "total_unique_birds (fst (detection_step t (self, nb))) =
     total_unique_birds self + (if active_birds self = [] then 1 else 0)"
  "snd (detection_step t (self, nb)) = nb + (if active_birds self = [] then 1 else 0)"
  by (simp_all add: detection_step_def Let_def split: list.splits)

lemma process_detections_counts:
  "total_unique_birds (fst (process_detections ds t (self, nb))) =
     total_unique_birds self + (if ds \<noteq> [] \<and> active_birds self = [] then 1 else 0)"
  "snd (process_detections ds t (self, nb)) =
     nb + (if ds \<noteq> [] \<and> active_birds self = [] then 1 else 0)"
  by (cases ds, simp, simp add: process_detections_Cons detection_step_counts
      del: process_detections.simps(2))+

lemma process_detections_slots:
  "length (active_birds (fst (process_detections ds t (self, nb)))) =
     (if ds = [] then length (active_birds self) else max 1 (length (active_birds self)))"
  by (cases ds) (simp_all add: process_detections_Cons detection_step_slots
      del: process_detections.simps(2))


subsection \<open>Expiry\<close>

lemma length_dict_del: "length (dict_del k d) \<le> length d"
  by (simp add: dict_del_def)

lemma length_fold_dict_del: "length (fold dict_del ks d) \<le> length d"
proof (induction ks arbitrary: d)
  case Nil
  show ?case by simp
next
  case (Cons k ks)
  have "length (fold dict_del ks (dict_del k d)) \<le> length (dict_del k d)" by (rule Cons.IH)
  also have "\<dots> \<le> length d" by (rule length_dict_del)
  finally show ?case by simp
qed

lemma length_delete_expired:
  "length (active_birds (delete_expired self t)) \<le> length (active_birds self)"
  by (simp add: delete_expired_def length_fold_dict_del)

lemma total_unique_delete_expired:
  "total_unique_birds (delete_expired self t) = total_unique_birds self"
  by (simp add: delete_expired_def)


subsection \<open>What one call of \<open>update_birds\<close> does to the slots and the unique counter\<close>

lemma expired_birds_after_visits:
  "expired_birds (fst (update_feeding_visits platform self n t mode)) t' = expired_birds self t'"
  by (simp add: expired_birds_def update_feeding_visits_keeps)

lemma delete_expired_after_visits:
  "active_birds (delete_expired (fst (update_feeding_visits platform self n t mode)) t') =
     active_birds (delete_expired self t')"
  by (simp add: delete_expired_def expired_birds_after_visits update_feeding_visits_keeps)

text \<open>
  The slot table after a call: untouched when the visit counter raised or tracking is
  off, otherwise expiry followed by the loop over the detections.
\<close>

lemma update_birds_active:
  "active_birds (fst (update_birds platform self ds t mode)) =
     (if snd (update_feeding_visits platform self (int (length ds)) t mode) = None \<and>
         enable_tracking self
      then active_birds (fst (process_detections ds t
             (delete_expired (fst (update_feeding_visits platform self (int (length ds)) t mode)) t, 0)))
      else active_birds self)"
proof -
  obtain u r where ur: "update_feeding_visits platform self (int (length ds)) t mode = (u, r)"
    by (cases "update_feeding_visits platform self (int (length ds)) t mode")
  have k: "active_birds u = active_birds self" "enable_tracking u = enable_tracking self"
    using update_feeding_visits_keeps [of platform self "int (length ds)" t mode] ur by simp_all
  show ?thesis
  proof (cases r)
    case (Some e)
    with ur k show ?thesis by (simp add: update_birds_raised)
  next
    case None
    with ur k show ?thesis by (simp add: update_birds_returned)
  qed
qed

text \<open>
  The unique counter goes up by one exactly when the visit counter did not raise,
  tracking is on, the frame has a detection and no slot survived the expiry; the returned
  \<open>new_birds\<close> is that increment.
\<close>

lemma update_birds_total_unique:
  "total_unique_birds (fst (update_birds platform self ds t mode)) =
     total_unique_birds self +
       (if snd (update_feeding_visits platform self (int (length ds)) t mode) = None \<and>
           enable_tracking self \<and> ds \<noteq> [] \<and> active_birds (delete_expired self t) = []
        then 1 else 0)"
proof -
  obtain u r where ur: "update_feeding_visits platform self (int (length ds)) t mode = (u, r)"
    by (cases "update_feeding_visits platform self (int (length ds)) t mode")
  have k: "total_unique_birds u = total_unique_birds self" "enable_tracking u = enable_tracking self"
    "active_birds (delete_expired u t) = active_birds (delete_expired self t)"
    using update_feeding_visits_keeps [of platform self "int (length ds)" t mode]
      delete_expired_after_visits [of platform self "int (length ds)" t mode t] ur by simp_all
  show ?thesis
  proof (cases r)
    case (Some e)
    with ur k show ?thesis by (simp add: update_birds_raised)
  next
    case None
    with ur k show ?thesis
      by (simp add: update_birds_returned process_detections_counts total_unique_delete_expired)
  qed
qed

lemma update_birds_result:
  "snd (update_birds platform self ds t mode) =
     (case snd (update_feeding_visits platform self (int (length ds)) t mode) of
        Some e \<Rightarrow> Inl e
      | None \<Rightarrow>
          Inr (int (length ds),
               if enable_tracking self \<and> ds \<noteq> [] \<and> active_birds (delete_expired self t) = []
               then 1 else 0))"
proof -
  obtain u r where ur: "update_feeding_visits platform self (int (length ds)) t mode = (u, r)"
    by (cases "update_feeding_visits platform self (int (length ds)) t mode")
  have k: "enable_tracking u = enable_tracking self"
    "active_birds (delete_expired u t) = active_birds (delete_expired self t)"
    using update_feeding_visits_keeps [of platform self "int (length ds)" t mode]
      delete_expired_after_visits [of platform self "int (length ds)" t mode t] ur by simp_all
  show ?thesis
  proof (cases r)
    case (Some e)
    with ur k show ?thesis by (simp add: update_birds_raised)
  next
    case None
    with ur k show ?thesis
      by (simp add: update_birds_returned process_detections_counts)
  qed
qed

lemma update_birds_slots:
  "length (active_birds (fst (update_birds platform self ds t mode)))
     \<le> max 1 (length (active_birds self))"
proof -
  let ?u = "fst (update_feeding_visits platform self (int (length ds)) t mode)"
  have "length (active_birds (fst (process_detections ds t (delete_expired ?u t, 0))))
          \<le> max 1 (length (active_birds (delete_expired ?u t)))"
    using process_detections_slots [of ds t "delete_expired ?u t" 0] by (simp split: if_splits)
  also have "\<dots> \<le> max 1 (length (active_birds ?u))"
    using length_delete_expired [of ?u t] by simp
  finally have "length (active_birds (fst (process_detections ds t (delete_expired ?u t, 0))))
          \<le> max 1 (length (active_birds self))"
    by (simp add: update_feeding_visits_keeps)
  then show ?thesis by (simp add: update_birds_active)
qed





subsection \<open>Sequences of frames\<close>

lemma run_frames_append:
  "run_frames platform self (fs @ gs) = run_frames platform (run_frames platform self fs) gs"
  by (induction fs arbitrary: self) simp_all

lemma run_frames_snoc:
  "run_frames platform self (fs @ [f]) =
     fst (update_birds platform (run_frames platform self fs) (fst f) (fst (snd f)) (snd (snd f)))"
  by (simp add: run_frames_append)

lemma run_frames_keeps:
  "enable_visit_counter (run_frames platform self fs) = enable_visit_counter self"
  "enable_tracking (run_frames platform self fs) = enable_tracking self"
  "bird_timeout (run_frames platform self fs) = bird_timeout self"
  "min_time_between_visits (run_frames platform self fs) = min_time_between_visits self"
  by (induction fs arbitrary: self) (simp_all add: update_birds_visits)

lemma update_birds_last_nonneg:
  "0 \<le> last_birds_on_frame self \<Longrightarrow>
   0 \<le> last_birds_on_frame (fst (update_birds platform self ds t mode))"
  by (cases "enable_visit_counter self")
     (simp_all add: update_birds_visits update_feeding_visits_fields update_feeding_visits_disabled)

lemma run_frames_last_nonneg:
  "0 \<le> last_birds_on_frame self \<Longrightarrow> 0 \<le> last_birds_on_frame (run_frames platform self fs)"
  by (induction fs arbitrary: self) (simp_all add: update_birds_last_nonneg)

lemma run_frames_slots:
  "length (active_birds self) \<le> 1 \<Longrightarrow> length (active_birds (run_frames platform self fs)) \<le> 1"
proof (induction fs arbitrary: self)
  case Nil
  then show ?case by simp
next
  case (Cons f fs)
  let ?next = "fst (update_birds platform self (fst f) (fst (snd f)) (snd (snd f)))"
  from update_birds_slots [of platform self "fst f" "fst (snd f)" "snd (snd f)"] Cons.prems
  have "length (active_birds ?next) \<le> 1" by simp
  then have "length (active_birds (run_frames platform ?next fs)) \<le> 1"
    by (rule Cons.IH)
  then show ?case by simp
qed



text \<open>
  On a state whose \<open>last_birds_on_frame\<close> is not negative, the specification's
  transitions A, B and D are the conditions under which the code counts a visit.
\<close>

lemma visit_start_transition_code:
  assumes "0 \<le> last_birds_on_frame self"
  shows "visit_start_transition self n t \<longleftrightarrow>
           (n > 0 \<and>
                 (if last_birds_on_frame self = 0
                  then last_bird_absence_time self = 0 \<or>
                       t - last_bird_absence_time self \<ge> min_time_between_visits self
                  else n > last_birds_on_frame self \<and> n > 1))"
  using assms by (auto simp add: visit_start_transition_def)

subsection \<open>Frames without detections\<close>




subsection \<open>Change detection and the event log\<close>

lemma has_changes_snapshot:
  assumes "has_changes self = Inr (changed, self')"
  shows "prev_total_unique self' = total_unique_birds self'"
    and "prev_total_feeding_visits self' = total_feeding_visits self'"
  using assms
  by (auto simp add: has_changes_def get_stats_def split: option.splits)

lemma get_stats_totals:
  assumes "get_stats self = Inr st"
  shows "stat_total_unique st = total_unique_birds self"
    and "stat_total_feeding_visits st = total_feeding_visits self"
  using assms by (auto simp add: get_stats_def split: option.splits)

text \<open>
  Once \<open>update_birds\<close> has run, \<open>has_changes\<close> returns, tells whether a counter differs
  from the snapshot, stores the new snapshot, and answers \<open>False\<close> when asked again at
  once.
\<close>

lemma has_changes_after_update:
  assumes "current_birds_on_frame self = Some n"
  shows "\<exists>self'. has_changes self =
            Inr (total_unique_birds self \<noteq> prev_total_unique self \<or>
                 total_feeding_visits self \<noteq> prev_total_feeding_visits self, self') \<and>
           prev_total_unique self' = total_unique_birds self \<and>
           prev_total_feeding_visits self' = total_feeding_visits self \<and>
           total_unique_birds self' = total_unique_birds self \<and>
           total_feeding_visits self' = total_feeding_visits self \<and>
           (\<exists>self''. has_changes self' = Inr (False, self''))"
  using assms by (simp add: has_changes_def get_stats_def)

text \<open>
  The callback compares the counters with the snapshot that \<open>has_changes\<close> has just
  overwritten with those same counters, so neither comparison can hold.
\<close>

lemma log_counter_events_nothing: "snd (log_counter_events tracker t) = []"
proof (cases "has_changes tracker")
  case (Inl e)
  then show ?thesis by (simp add: log_counter_events_def)
next
  case (Inr r)
  obtain changed tracker' where r: "r = (changed, tracker')" by (cases r)
  with Inr have h: "has_changes tracker = Inr (changed, tracker')" by simp
  show ?thesis
  proof (cases "get_stats tracker'")
    case (Inl e)
    with h show ?thesis by (simp add: log_counter_events_def)
  next
    case (Inr st)
    from h Inr have "\<not> stat_total_feeding_visits st > prev_total_feeding_visits tracker'"
      and "\<not> stat_total_unique st > prev_total_unique tracker'"
      by (simp_all add: has_changes_snapshot get_stats_totals)
    with h Inr show ?thesis by (simp add: log_counter_events_def)
  qed
qed

lemma process_callback_logs_nothing:
  "snd (process_callback platform tracker ds t mode) = []"
  by (simp add: process_callback_def log_counter_events_nothing split: prod.splits sum.splits)

section \<open>The claims\<close>

subsection \<open>C1: logging of counter increases\<close>

text \<open>
  C1 says that every increase of \<open>total_feeding_visits\<close> or \<open>total_unique_birds\<close> in a
  frame is logged by exactly one \<open>log_counter_event\<close> call. The code does not do that:
  on the first frame with one detection, at time 5, from a fresh tracker with the default
  configuration, both counters go from 0 to 1 and the callback logs no event, in every
  console mode.
\<close>

theorem counter_increase_not_logged:
  "total_feeding_visits (BirdTracker_init (get_default_config :: int bird_tracking_config)) = 0 \<and>
   total_unique_birds (BirdTracker_init (get_default_config :: int bird_tracking_config)) = 0 \<and>
   total_feeding_visits (fst (process_callback platform (BirdTracker_init (get_default_config :: int bird_tracking_config)) [()] 5 console_mode)) = 1 \<and>
   total_unique_birds (fst (process_callback platform (BirdTracker_init (get_default_config :: int bird_tracking_config)) [()] 5 console_mode)) = 1 \<and>
   snd (process_callback platform (BirdTracker_init (get_default_config :: int bird_tracking_config)) [()] 5 console_mode) = []"
  by (simp add: run_defs process_callback_def log_counter_events_def has_changes_def)

subsection \<open>C2: the end-to-end scenario\<close>

text \<open>
  C2, as amended: from a fresh tracker with timeout 30 and minimum time between visits
  10, the frames with counts 0, 1, 1, 0, 1 at times 0, 5, 6, 20, 25 give one unique bird
  and one feeding visit. The absence is recorded at time 20, and the bird is back 5
  seconds later, which is less than 10, so the last frame continues the visit.
\<close>

theorem end_to_end_scenario_one_visit:
  "total_unique_birds (run_frames platform (BirdTracker_init (get_default_config :: int bird_tracking_config))
      [frame 0 0 console_mode, frame 1 5 console_mode, frame 1 6 console_mode,
       frame 0 20 console_mode, frame 1 25 console_mode]) = 1 \<and>
   total_feeding_visits (run_frames platform (BirdTracker_init (get_default_config :: int bird_tracking_config))
      [frame 0 0 console_mode, frame 1 5 console_mode, frame 1 6 console_mode,
       frame 0 20 console_mode, frame 1 25 console_mode]) = 1"
  by (simp add: run_defs)

text \<open>C2 as stated, with two visits, is false on the code.\<close>

theorem end_to_end_scenario_two_visits_counterexample:
  "\<not> (total_unique_birds (run_frames linux_utc_platform (BirdTracker_init (get_default_config :: int bird_tracking_config))
         [frame 0 0 ''all'', frame 1 5 ''all'', frame 1 6 ''all'',
          frame 0 20 ''all'', frame 1 25 ''all'']) = 1 \<and>
      total_feeding_visits (run_frames linux_utc_platform (BirdTracker_init (get_default_config :: int bird_tracking_config))
         [frame 0 0 ''all'', frame 1 5 ''all'', frame 1 6 ''all'',
          frame 0 20 ''all'', frame 1 25 ''all'']) = 2)"
  by (simp add: run_defs)

subsection \<open>C3: the counters never decrease\<close>

text \<open>
  C3: after any sequence of \<open>update_birds\<close> calls from the initial state, one more call
  does not lower \<open>total_unique_birds\<close> or \<open>total_feeding_visits\<close>, and
  \<open>total_feeding_visits\<close> goes up by exactly one when the visit counter is on and the
  call is a visit-start transition (A, B or D), and stays the same otherwise. This holds
  whether or not some of the calls raise.
\<close>

theorem counters_never_decrease:
  "total_unique_birds (run_frames platform (BirdTracker_init config) fs)
     \<le> total_unique_birds (run_frames platform (BirdTracker_init config) (fs @ [f])) \<and>
   total_feeding_visits (run_frames platform (BirdTracker_init config) fs)
     \<le> total_feeding_visits (run_frames platform (BirdTracker_init config) (fs @ [f])) \<and>
   total_feeding_visits (run_frames platform (BirdTracker_init config) (fs @ [f])) =
     total_feeding_visits (run_frames platform (BirdTracker_init config) fs) +
       (if enable_visit_counter (BirdTracker_init config) \<and>
           visit_start_transition (run_frames platform (BirdTracker_init config) fs)
             (int (length (fst f))) (fst (snd f))
        then 1 else 0)"
proof -
  let ?s = "run_frames platform (BirdTracker_init config) fs"
  let ?s' = "run_frames platform (BirdTracker_init config) (fs @ [f])"
  have nn: "0 \<le> last_birds_on_frame ?s"
    by (rule run_frames_last_nonneg) (simp add: BirdTracker_init_fields)
  have u: "total_unique_birds ?s \<le> total_unique_birds ?s'"
    by (simp add: run_frames_snoc update_birds_total_unique)
  have v: "total_feeding_visits ?s' =
     total_feeding_visits ?s +
       (if enable_visit_counter (BirdTracker_init config) \<and>
           visit_start_transition ?s (int (length (fst f))) (fst (snd f))
        then 1 else 0)"
  proof (cases "enable_visit_counter (BirdTracker_init config)")
    case True
    then have "enable_visit_counter ?s" by (simp add: run_frames_keeps)
    with True nn show ?thesis
      by (simp add: run_frames_snoc update_birds_visits update_feeding_visits_fields
            visit_start_transition_code)
  next
    case False
    then have "\<not> enable_visit_counter ?s" by (simp add: run_frames_keeps)
    with False show ?thesis
      by (simp add: run_frames_snoc update_birds_visits update_feeding_visits_disabled)
  qed
  from v have "total_feeding_visits ?s \<le> total_feeding_visits ?s'" by simp
  with u v show ?thesis by blast
qed

text \<open>
  An instance where the visit counter is on and the call is a visit start: after an empty
  frame, a frame with one detection raises the visits from 0 to 1.
\<close>

theorem counters_never_decrease_witness:
  "total_unique_birds (run_frames linux_utc_platform (BirdTracker_init (get_default_config :: int bird_tracking_config)) [frame 0 0 ''all''])
     \<le> total_unique_birds (run_frames linux_utc_platform (BirdTracker_init (get_default_config :: int bird_tracking_config)) [frame 0 0 ''all'', frame 1 5 ''all'']) \<and>
   total_feeding_visits (run_frames linux_utc_platform (BirdTracker_init (get_default_config :: int bird_tracking_config)) [frame 0 0 ''all'', frame 1 5 ''all'']) =
     total_feeding_visits (run_frames linux_utc_platform (BirdTracker_init (get_default_config :: int bird_tracking_config)) [frame 0 0 ''all'']) + 1 \<and>
   enable_visit_counter (BirdTracker_init (get_default_config :: int bird_tracking_config)) \<and>
   visit_start_transition (run_frames linux_utc_platform (BirdTracker_init (get_default_config :: int bird_tracking_config)) [frame 0 0 ''all'']) 1 5"
  using counters_never_decrease
          [of linux_utc_platform "(get_default_config :: int bird_tracking_config)" "[frame 0 0 ''all'']" "frame 1 5 ''all''"]
  by (simp add: run_defs visit_start_transition_def)

subsection \<open>C4: change detection\<close>

text \<open>
  C4 says that \<open>has_changes\<close> returns a truth value in every reachable state. On a
  tracker that has not completed an \<open>update_birds\<close> call yet it raises instead:
  \<open>get_stats\<close> reads \<open>current_birds_on_frame\<close>, which \<open>__init__\<close> does not create.
  (Once \<open>current_birds_on_frame\<close> exists the claim holds, see
  \<open>has_changes_after_update\<close>.)
\<close>

theorem has_changes_before_first_update:
  "has_changes (BirdTracker_init (get_default_config :: int bird_tracking_config)) = Inl AttributeError"
  by (simp add: has_changes_def get_stats_def BirdTracker_init_def)

text \<open>So on the fresh tracker there is no returned flag, true or false.\<close>

theorem has_changes_before_first_update_witness:
  "current_birds_on_frame (BirdTracker_init (get_default_config :: int bird_tracking_config)) = None \<and>
   \<not> (\<exists>changed self'. has_changes (BirdTracker_init (get_default_config :: int bird_tracking_config)) = Inr (changed, self'))"
  using has_changes_before_first_update
  by (simp add: BirdTracker_init_fields)

subsection \<open>C5: the stored frame count\<close>




subsection \<open>C6: a flicker inside the debounce window\<close>

text \<open>
  C6: with the visit counter enabled and \<open>min_time_between_visits = m\<close>, the frames with
  counts 0, 0, 1, 1, 0, 1 at times 0, 1, 2, 3, 4, 4 + d, where \<open>0 \<le> d < m\<close>, give exactly
  one feeding visit, in all console modes: the first appearance starts it, the
  re-appearance continues it.
\<close>

theorem flicker_within_debounce_is_one_visit:
  assumes "enable_visit_counter (BirdTracker_init config)"
    and "min_time_between_visits (BirdTracker_init config) = m"
    and "0 \<le> d" and "d < m"
  shows "total_feeding_visits
           (run_frames platform (BirdTracker_init config)
              [frame 0 0 mode0, frame 0 1 mode1, frame 1 2 mode2, frame 1 3 mode3,
               frame 0 4 mode4, frame 1 (4 + d) mode5]) = 1"
  using assms
  by (simp add: frame_def update_birds_visits update_feeding_visits_fields
        BirdTracker_init_fields fromtimestamp_ok_def)

theorem flicker_within_debounce_is_one_visit_witness:
  "enable_visit_counter (BirdTracker_init (get_default_config :: int bird_tracking_config)) \<and>
   min_time_between_visits (BirdTracker_init (get_default_config :: int bird_tracking_config)) = 10 \<and>
   (0::int) \<le> 3 \<and> (3::int) < 10 \<and>
   total_feeding_visits
     (run_frames linux_utc_platform (BirdTracker_init (get_default_config :: int bird_tracking_config))
        [frame 0 0 ''all'', frame 0 1 ''all'', frame 1 2 ''all'', frame 1 3 ''all'',
         frame 0 4 ''all'', frame 1 (4 + 3) ''all'']) = 1"
  using flicker_within_debounce_is_one_visit
          [of "(get_default_config :: int bird_tracking_config)" 10 3 linux_utc_platform "''all''" "''all''" "''all''" "''all''" "''all''" "''all''"]
  by (simp add: BirdTracker_init_fields get_default_config_def)

subsection \<open>C7: group growth\<close>

text \<open>
  C7: with the visit counter enabled, two calls from the initial state with one and then
  two detections, at times \<open>t1 \<le> t2\<close>, give two feeding visits: the first appearance and
  the growth of the group. (The proof does not use the order of the two times. If the
  message of the first call raises, the second call counts as a first appearance, and the
  total is two again.)
\<close>

theorem group_growth_counts_second_visit:
  assumes "enable_visit_counter (BirdTracker_init config)" and "t1 \<le> t2"
  shows "total_feeding_visits
           (run_frames platform (BirdTracker_init config)
              [frame 1 t1 mode1, frame 2 t2 mode2]) = 2"
  using assms(1)
  by (simp add: frame_def update_birds_visits update_feeding_visits_fields
        BirdTracker_init_fields)

theorem group_growth_counts_second_visit_witness:
  "enable_visit_counter (BirdTracker_init (get_default_config :: int bird_tracking_config)) \<and>
   (5::int) \<le> 6 \<and>
   total_feeding_visits
     (run_frames linux_utc_platform (BirdTracker_init (get_default_config :: int bird_tracking_config)) [frame 1 5 ''all'', frame 2 6 ''all'']) = 2"
  using group_growth_counts_second_visit
          [of "(get_default_config :: int bird_tracking_config)" 5 6 linux_utc_platform "''all''" "''all''"]
  by (simp add: BirdTracker_init_fields get_default_config_def)

subsection \<open>C8: expiry of a slot\<close>




subsection \<open>C9: at most one slot\<close>

text \<open>
  C9: in every state reached by \<open>update_birds\<close> calls from the initial state the slot
  table holds at most one slot, so \<open>current_active\<close> is 0 or 1 whenever \<open>get_stats\<close>
  returns, and the \<open>new_birds\<close> count returned by a further call is 0 or 1.
\<close>

theorem at_most_one_active_slot:
  "length (active_birds (run_frames platform (BirdTracker_init config) fs)) \<le> 1 \<and>
   (\<forall>st. get_stats (run_frames platform (BirdTracker_init config) fs) = Inr st \<longrightarrow>
      stat_current_active st \<in> {0, 1}) \<and>
   (\<forall>n new_birds.
      snd (update_birds platform (run_frames platform (BirdTracker_init config) fs) ds t mode) =
        Inr (n, new_birds) \<longrightarrow> new_birds \<in> {0, 1})"
proof -
  let ?s = "run_frames platform (BirdTracker_init config) fs"
  have l: "length (active_birds ?s) \<le> 1"
    by (rule run_frames_slots) (simp add: BirdTracker_init_fields)
  then have "length (active_birds ?s) = 0 \<or> length (active_birds ?s) = 1" by arith
  then have "int (length (active_birds ?s)) \<in> {0, 1}" by auto
  then have g: "\<forall>st. get_stats ?s = Inr st \<longrightarrow> stat_current_active st \<in> {0, 1}"
    by (auto simp add: get_stats_def split: option.splits)
  have n: "\<forall>n new_birds. snd (update_birds platform ?s ds t mode) = Inr (n, new_birds) \<longrightarrow>
      new_birds \<in> {0, 1}"
    by (auto simp add: update_birds_result split: option.splits if_splits)
  from l g n show ?thesis by blast
qed

text \<open>After one frame with two detections \<open>get_stats\<close> returns, with one active slot.\<close>

theorem at_most_one_active_slot_witness:
  "get_stats (run_frames linux_utc_platform (BirdTracker_init (get_default_config :: int bird_tracking_config)) [frame 2 5 ''all'']) =
     Inr \<lparr> stat_total_unique = 1, stat_total_feeding_visits = 1, stat_current_active = 1,
           stat_current_on_frame = 2, stat_last_absence_time = 0 \<rparr> \<and>
   stat_current_active
     \<lparr> stat_total_unique = 1, stat_total_feeding_visits = 1, stat_current_active = 1,
       stat_current_on_frame = 2, stat_last_absence_time = (0::int) \<rparr> \<in> {0, 1} \<and>
   snd (update_birds linux_utc_platform
          (run_frames linux_utc_platform (BirdTracker_init (get_default_config :: int bird_tracking_config)) [frame 2 5 ''all'']) [()] 6 ''all'') = Inr (1, 0) \<and>
   (0::int) \<in> {0, 1} \<and>
   length (active_birds (run_frames linux_utc_platform (BirdTracker_init (get_default_config :: int bird_tracking_config)) [frame 2 5 ''all''])) \<le> 1"
  using at_most_one_active_slot
          [of linux_utc_platform "(get_default_config :: int bird_tracking_config)" "[frame 2 5 ''all'']" "[()]" 6 "''all''"]
  by (simp add: run_defs numeral_2_eq_2)

subsection \<open>C10: the absence time 0 is the sentinel\<close>

text \<open>
  C10: with the visit counter enabled and birds on the previous frame, a disappearance
  recorded at \<open>current_time = 0\<close> leaves \<open>last_bird_absence_time\<close> and
  \<open>last_birds_on_frame\<close> at their initial values, and the next frame with a bird, at any
  time and for any \<open>min_time_between_visits\<close>, counts a new visit.
\<close>

theorem absence_at_time_zero_looks_like_never_absent:
  assumes "enable_visit_counter self" and "last_birds_on_frame self > 0" and "n > 0"
  shows "last_bird_absence_time (fst (update_feeding_visits platform self 0 0 mode)) =
           last_bird_absence_time (BirdTracker_init config) \<and>
         last_birds_on_frame (fst (update_feeding_visits platform self 0 0 mode)) =
           last_birds_on_frame (BirdTracker_init config) \<and>
         total_feeding_visits
           (fst (update_feeding_visits platform
                   (fst (update_feeding_visits platform self 0 0 mode)) n t mode')) =
           total_feeding_visits self + 1 \<and>
         new_visit_happened
           (fst (update_feeding_visits platform
                   (fst (update_feeding_visits platform self 0 0 mode)) n t mode'))"
  using assms
  by (simp add: update_feeding_visits_def count_visit_def Let_def BirdTracker_init_fields
        print_time_def fromtimestamp_ok_def split: option.splits)

text \<open>
  A bird at time 0, gone at time 0, back at time 2: two visits, although only 2 seconds
  of the 10 have passed.
\<close>

theorem absence_at_time_zero_looks_like_never_absent_witness:
  "enable_visit_counter (run_frames linux_utc_platform (BirdTracker_init (get_default_config :: int bird_tracking_config)) [frame 1 0 ''all'']) \<and>
   last_birds_on_frame (run_frames linux_utc_platform (BirdTracker_init (get_default_config :: int bird_tracking_config)) [frame 1 0 ''all'']) > 0 \<and>
   (1::int) > 0 \<and>
   min_time_between_visits (run_frames linux_utc_platform (BirdTracker_init (get_default_config :: int bird_tracking_config)) [frame 1 0 ''all'']) = 10 \<and>
   total_feeding_visits
     (fst (update_feeding_visits linux_utc_platform
        (fst (update_feeding_visits linux_utc_platform
           (run_frames linux_utc_platform (BirdTracker_init (get_default_config :: int bird_tracking_config)) [frame 1 0 ''all'']) 0 0 ''all'')) 1 2 ''all'')) = 2"
  using absence_at_time_zero_looks_like_never_absent
          [of "run_frames linux_utc_platform (BirdTracker_init (get_default_config :: int bird_tracking_config)) [frame 1 0 ''all'']" 1 linux_utc_platform
              "''all''" "(get_default_config :: int bird_tracking_config)" 2 "''all''"]
  by (simp add: run_defs)

end
